theory Spec2Isabelle
  imports Main "HOL-Library.Sublist" "HOL-Library.AList"
begin

section \<open>Values shared by the modules\<close>

text \<open>
  Python strings are modelled as HOL strings; a character stands for a code point below 256.
  A database row is the list of its cells. Every exception the modules raise or let through
  is a value of \<open>error\<close>; a function that can raise returns \<open>error + 'a\<close> with
  \<open>Inl\<close> for the exception.
\<close>

type_synonym row = "string list"

datatype error =
    ValueError
  | AttributeError
  | IndexError
  | ValidationError
  | DatabaseError
  | ProgramError

section \<open>app/db.py\<close>

subsection \<open>Environment and database URL\<close>

text \<open>\<open>os.getenv(key, default)\<close>: the environment is a partial map from names to values.\<close>

definition getenv :: "(string \<rightharpoonup> string) \<Rightarrow> string \<Rightarrow> string \<Rightarrow> string" where
  "getenv environ key dflt = (case environ key of None \<Rightarrow> dflt | Some v \<Rightarrow> v)"

text \<open>Python's \<open>all\<close> over a list of strings: a string is falsy exactly when it is empty.\<close>

definition all_truthy :: "string list \<Rightarrow> bool" where
  "all_truthy xs = list_all (\<lambda>s. s \<noteq> []) xs"

definition create_db_url :: "(string \<rightharpoonup> string) \<Rightarrow> error + string" where
  "create_db_url environ =
     (let postgres_user = getenv environ ''POSTGRES_USER'' '''';
          postgres_password = getenv environ ''POSTGRES_PASSWORD'' '''';
          postgres_host = getenv environ ''POSTGRES_HOST'' '''';
          postgres_port = getenv environ ''POSTGRES_PORT'' '''';
          postgres_db = getenv environ ''POSTGRES_DB'' ''''
      in if \<not> all_truthy [postgres_user, postgres_password, postgres_host, postgres_port, postgres_db]
         then Inl ValueError
         else Inr (''postgresql+psycopg2://''
                   @ postgres_user @ '':''
                   @ postgres_password @ ''@''
                   @ postgres_host @ '':''
                   @ postgres_port @ ''/''
                   @ postgres_db))"

definition postgres_variables :: "string list" where
  "postgres_variables =
     [''POSTGRES_USER'', ''POSTGRES_PASSWORD'', ''POSTGRES_HOST'', ''POSTGRES_PORT'', ''POSTGRES_DB'']"

subsection \<open>Statements and connections\<close>

text \<open>
  What \<open>conn.execute\<close> receives: the text of the statement and the parameters bound to it.
  SQLAlchemy's \<open>text(s)\<close> builds a statement with the text \<open>s\<close>; the module calls
  \<open>conn.execute(query)\<close> with no parameter argument, so nothing is bound.
\<close>

record statement =
  sql_text :: string
  parameters :: "(string \<times> string) list"

definition text_clause :: "string \<Rightarrow> statement" where
  "text_clause s = \<lparr>sql_text = s, parameters = []\<rparr>"

text \<open>
  A connection answers a statement with the rows \<open>fetchall\<close> returns, or raises. The
  database is outside the program: its answer is a parameter of the model.
\<close>

record connection =
  execute :: "statement \<Rightarrow> error + row list"

text \<open>An engine is what \<open>engine.connect()\<close> gives: a connection, or an exception.\<close>

record engine =
  connect :: "error + connection"

definition get_db_connection :: "engine option \<Rightarrow> error + connection" where
  "get_db_connection eng = (case eng of Some e \<Rightarrow> connect e | None \<Rightarrow> Inl ValueError)"

subsection \<open>Effects\<close>

text \<open>
  The effects of the program on its environment, in the order they happen: a statement
  sent to the database, a directory listing (the name searched for and the file names
  found), a file read, a call of the completion program (with its two arguments), a file
  written.
\<close>

datatype event =
    Executed statement
  | Globbed string "string list"
  | Read_file string
  | Called_program "row list" "string set"
  | Wrote_file string

subsection \<open>Queries\<close>

definition get_table_rows_query :: "string \<Rightarrow> statement" where
  "get_table_rows_query table = text_clause (''SELECT * FROM '' @ table @ '' LIMIT 5;'')"

definition get_table_rows ::
  "connection option \<Rightarrow> string \<Rightarrow> event list \<Rightarrow> (error + row list) \<times> event list" where
  "get_table_rows conn table tr =
     (case conn of
        None \<Rightarrow> (Inl ValueError, tr)
      | Some c \<Rightarrow>
          (let query = get_table_rows_query table in
           case execute c query of
             Inl e \<Rightarrow> (Inl e, tr @ [Executed query])
           | Inr results \<Rightarrow> (Inr (map (\<lambda>row. row) results), tr @ [Executed query])))"

definition get_all_tables_query :: statement where
  "get_all_tables_query =
     text_clause (''\<newline>    SELECT table_name FROM \<newline>    information_schema.tables \<newline>''
                  @ ''    WHERE table_schema = 'public' \<newline>''
                  @ ''      AND table_type = 'BASE TABLE';\<newline>    '')"

text \<open>\<open>[row[0] for row in results]\<close>: indexing a row that has no cell raises IndexError.\<close>

fun first_cells :: "row list \<Rightarrow> error + string list" where
  "first_cells [] = Inr []"
| "first_cells (r # rs) =
     (case r of
        [] \<Rightarrow> Inl IndexError
      | c # _ \<Rightarrow> (case first_cells rs of Inl e \<Rightarrow> Inl e | Inr cs \<Rightarrow> Inr (c # cs)))"

definition get_all_tables ::
  "connection option \<Rightarrow> event list \<Rightarrow> (error + string list) \<times> event list" where
  "get_all_tables conn tr =
     (case conn of
        None \<Rightarrow> (Inl ValueError, tr)
      | Some c \<Rightarrow>
          (case execute c get_all_tables_query of
             Inl e \<Rightarrow> (Inl e, tr @ [Executed get_all_tables_query])
           | Inr results \<Rightarrow> (first_cells results, tr @ [Executed get_all_tables_query])))"

section \<open>app/text_to_sql.py\<close>

subsection \<open>TableContextCreator\<close>

record SQLTableSchema =
  table_name :: string
  context_str :: "string option"

text \<open>\<open>SQLDatabase.get_single_table_info\<close> is a library call: a parameter of the model.\<close>

record SQLDatabase =
  get_single_table_info :: "string \<Rightarrow> error + string"

definition create_full_context :: "string \<Rightarrow> string option \<Rightarrow> string" where
  "create_full_context table_info table_context =
     (case table_context of
        None \<Rightarrow> table_info
      | Some c \<Rightarrow> if c \<noteq> [] then table_info @ '' The table description is: '' @ c else table_info)"

definition get_info :: "SQLDatabase \<Rightarrow> string \<Rightarrow> error + string" where
  "get_info db name = get_single_table_info db name"

text \<open>\<open>sep.join(xs)\<close>.\<close>

fun join :: "string \<Rightarrow> string list \<Rightarrow> string" where
  "join sep [] = []"
| "join sep [x] = x"
| "join sep (x # y # ys) = x @ sep @ join sep (y # ys)"

text \<open>The loop of \<open>get_contexts\<close>, with the list \<open>descriptions\<close> it appends to.\<close>

fun get_contexts_loop ::
  "SQLDatabase \<Rightarrow> SQLTableSchema list \<Rightarrow> string list \<Rightarrow> error + string list" where
  "get_contexts_loop db [] descriptions = Inr descriptions"
| "get_contexts_loop db (table # rest) descriptions =
     (case get_info db (SQLTableSchema.table_name table) of
        Inl e \<Rightarrow> Inl e
      | Inr table_info \<Rightarrow>
          (let table_description = create_full_context table_info (context_str table)
           in get_contexts_loop db rest (descriptions @ [table_description])))"

definition get_contexts :: "SQLDatabase \<Rightarrow> SQLTableSchema list \<Rightarrow> error + string" where
  "get_contexts db tables_schemas =
     (case get_contexts_loop db tables_schemas [] of
        Inl e \<Rightarrow> Inl e
      | Inr descriptions \<Rightarrow> Inr (join ''\<newline>\<newline>'' descriptions))"

subsection \<open>LlmResponseParser\<close>

text \<open>
  \<open>s.find(sub)\<close>: the lowest index at which \<open>sub\<close> occurs in \<open>s\<close>, or \<open>-1\<close>.
  \<open>find_at sub s i\<close> scans the rest \<open>s\<close> of the string, which starts at index \<open>i\<close>.
\<close>

fun find_at :: "string \<Rightarrow> string \<Rightarrow> nat \<Rightarrow> int" where
  "find_at sub [] i = (if sub = [] then int i else - 1)"
| "find_at sub (c # cs) i = (if prefix sub (c # cs) then int i else find_at sub cs (Suc i))"

definition str_find :: "string \<Rightarrow> string \<Rightarrow> int" where
  "str_find s sub = find_at sub s 0"

text \<open>The slices \<open>s[i:]\<close> and \<open>s[:i]\<close>; a negative index counts from the end.\<close>

definition slice_from :: "string \<Rightarrow> int \<Rightarrow> string" where
  "slice_from s i = (if i < 0 then drop (nat (int (length s) + i)) s else drop (nat i) s)"

definition slice_to :: "string \<Rightarrow> int \<Rightarrow> string" where
  "slice_to s i = (if i < 0 then take (nat (int (length s) + i)) s else take (nat i) s)"

text \<open>
  \<open>s.strip()\<close> removes whitespace at both ends, \<open>s.strip(chars)\<close> the characters of
  \<open>chars\<close>. The whitespace code points below 256 are 9 to 13, 28 to 32, 133 and 160.
\<close>

definition isspace :: "char \<Rightarrow> bool" where
  "isspace c = ((of_char c :: nat) \<in> set [9, 10, 11, 12, 13, 28, 29, 30, 31, 32, 133, 160])"

definition strip_where :: "(char \<Rightarrow> bool) \<Rightarrow> string \<Rightarrow> string" where
  "strip_where p s = rev (dropWhile p (rev (dropWhile p s)))"

definition strip :: "string \<Rightarrow> string" where
  "strip s = strip_where isspace s"

definition strip_chars :: "string \<Rightarrow> string \<Rightarrow> string" where
  "strip_chars chars s = strip_where (\<lambda>c. c \<in> set chars) s"

text \<open>\<open>s.replace(old, new)\<close> for one-character \<open>old\<close> and \<open>new\<close>.\<close>

definition replace_char :: "char \<Rightarrow> char \<Rightarrow> string \<Rightarrow> string" where
  "replace_char old new s = map (\<lambda>c. if c = old then new else c) s"

text \<open>A chat response, as far as the parser reads it: \<open>response.message.content\<close>.\<close>

record ChatResponse =
  message_content :: "string option"

definition parse_response_to_sql :: "ChatResponse \<Rightarrow> error + string" where
  "parse_response_to_sql response =
     (let sql_query_prefix = ''SQLQuery:'';
          sql_result_prefix = ''SQLResult:''
      in case message_content response of
           None \<Rightarrow> Inl AttributeError
         | Some response_content \<Rightarrow>
             (let sql_query_start_index = str_find response_content sql_query_prefix;
                  sql_result_start_index = str_find response_content sql_result_prefix;
                  response_content1 =
                    (if sql_query_start_index \<noteq> - 1
                     then slice_from response_content
                            (sql_query_start_index + int (length sql_query_prefix))
                     else response_content);
                  response_content2 =
                    (if sql_result_start_index \<noteq> - 1
                     then slice_to response_content1 sql_result_start_index
                     else response_content1);
                  cleaned_sql_query =
                    replace_char (CHR 0x0A) (CHR '' '')
                      (strip (strip_chars ''```'' (strip response_content2)))
              in Inr cleaned_sql_query))"

section \<open>app/table.py\<close>

subsection \<open>Table summaries and the cache directory\<close>

text \<open>
  \<open>TableInfo\<close> is declared in \<open>models/table.py\<close>; \<open>table.py\<close> reads and writes its two
  fields \<open>table_name\<close> and \<open>table_summary\<close>.
\<close>

record TableInfo =
  table_name :: string
  table_summary :: string

text \<open>
  A file of the cache directory holds the JSON of a \<open>TableInfo\<close> (what \<open>json.dump\<close> of
  \<open>table_info.dict()\<close> writes and \<open>TableInfo.parse_file\<close> reads back), or something that
  \<open>parse_file\<close> rejects. The directory \<open>table_info_dir\<close> is the list of its entries, by
  file name.
\<close>

datatype file_content = Json_of TableInfo | Other_content

type_synonym directory = "(string \<times> file_content) list"

definition parse_file :: "file_content \<Rightarrow> error + TableInfo" where
  "parse_file content = (case content of Json_of ti \<Rightarrow> Inr ti | Other_content \<Rightarrow> Inl ValidationError)"

text \<open>
  \<open>Path(table_info_dir).glob(f"{filename}*")\<close>. A \<open>filename\<close> is plain when it has
  none of the glob characters \<open>*\<close>, \<open>?\<close>, \<open>[\<close> and no path separator \<open>/\<close>;
  the pattern then stands for the entries of the directory whose name begins with
  \<open>filename\<close> (names are compared as they are, as on POSIX systems). For any other
  \<open>filename\<close> the result depends on the pattern language of the library, which may also
  raise; it is a parameter, \<open>special\<close>.
\<close>

definition plain_name :: "string \<Rightarrow> bool" where
  "plain_name filename = list_all (\<lambda>c. c \<notin> set ''*?[/'') filename"

definition glob_prefix :: "directory \<Rightarrow> string \<Rightarrow> (string \<times> file_content) list" where
  "glob_prefix dir filename = filter (\<lambda>(name, content). prefix filename name) dir"

definition path_glob ::
  "(directory \<Rightarrow> string \<Rightarrow> error + (string \<times> file_content) list) \<Rightarrow> directory \<Rightarrow> string
   \<Rightarrow> error + (string \<times> file_content) list" where
  "path_glob special dir filename =
     (if plain_name filename then Inr (glob_prefix dir filename) else special dir filename)"

subsection \<open>TableDescriber\<close>

text \<open>
  The fields of a \<open>TableDescriber\<close> (\<open>conn\<close>, \<open>program\<close>, \<open>table_infos\<close>,
  \<open>loaded_tables\<close>), together with the part of the environment its methods change: the
  entries of its directory \<open>table_info_dir\<close> (\<open>files\<close>) and the effects so far
  (\<open>trace\<close>), and the library's answer to patterns that are not plain
  (\<open>glob_special\<close>). The completion program is a library object: called with the rows
  and the set \<open>loaded_tables\<close>, it returns a \<open>TableInfo\<close> or raises. The code hands it
  \<open>str(list(self.loaded_tables))\<close>, the names of the set in an order the runtime
  chooses; the program is taken as a function of the set.
\<close>

record TableDescriber =
  conn :: "connection option"
  program :: "row list \<Rightarrow> string set \<Rightarrow> error + TableInfo"
  table_infos :: "SQLTableSchema list"
  loaded_tables :: "string set"
  files :: directory
  trace :: "event list"
  glob_special :: "directory \<Rightarrow> string \<Rightarrow> error + (string \<times> file_content) list"

text \<open>
  \<open>__init__\<close>: \<open>dir\<close> is what the directory holds when the object is built
  (\<open>mkdir(parents=True, exist_ok=True)\<close> leaves an existing directory as it is).
\<close>

definition init_TableDescriber ::
  "engine option \<Rightarrow> (row list \<Rightarrow> string set \<Rightarrow> error + TableInfo) \<Rightarrow> directory
   \<Rightarrow> (directory \<Rightarrow> string \<Rightarrow> error + (string \<times> file_content) list)
   \<Rightarrow> error + TableDescriber" where
  "init_TableDescriber eng prog dir special =
     (case get_db_connection eng of
        Inl e \<Rightarrow> Inl e
      | Inr c \<Rightarrow>
          Inr \<lparr>conn = Some c, program = prog, table_infos = [], loaded_tables = {},
               files = dir, trace = [], glob_special = special\<rparr>)"

definition get_table_info_with_index ::
  "TableDescriber \<Rightarrow> string \<Rightarrow> (error + TableInfo option) \<times> TableDescriber" where
  "get_table_info_with_index self filename =
     (case path_glob (glob_special self) (files self) filename of
        Inl e \<Rightarrow> (Inl e, self)
      | Inr results_list \<Rightarrow>
          (let self1 = self\<lparr>trace := trace self @ [Globbed filename (map fst results_list)]\<rparr>
           in case results_list of
                [] \<Rightarrow> (Inr None, self1)
              | [(path, content)] \<Rightarrow>
                  (case parse_file content of
                     Inl e \<Rightarrow> (Inl e, self1\<lparr>trace := trace self1 @ [Read_file path]\<rparr>)
                   | Inr ti \<Rightarrow> (Inr (Some ti), self1\<lparr>trace := trace self1 @ [Read_file path]\<rparr>))
              | _ \<Rightarrow> (Inl ValueError, self1)))"

text \<open>
  \<open>_parse_table_info\<close>: any exception of the call, or of the assignment to
  \<open>table_info.table_name\<close>, is caught and \<open>None\<close> is returned.
\<close>

definition parse_table_info ::
  "TableDescriber \<Rightarrow> row list \<Rightarrow> string \<Rightarrow> TableInfo option \<times> TableDescriber" where
  "parse_table_info self rows name =
     (let self1 = self\<lparr>trace := trace self @ [Called_program rows (loaded_tables self)]\<rparr>
      in case program self rows (loaded_tables self) of
           Inl e \<Rightarrow> (None, self1)
         | Inr table_info \<Rightarrow> (Some (table_info\<lparr>TableInfo.table_name := name\<rparr>), self1))"

text \<open>\<open>_add_table_name\<close>: reading \<open>table_info.table_name\<close> of \<open>None\<close> raises AttributeError.\<close>

definition add_table_name ::
  "TableDescriber \<Rightarrow> TableInfo option \<Rightarrow> (error + bool) \<times> TableDescriber" where
  "add_table_name self table_info =
     (case table_info of
        None \<Rightarrow> (Inl AttributeError, self)
      | Some ti \<Rightarrow>
          (let name = TableInfo.table_name ti in
           if name \<notin> loaded_tables self
           then (Inr True, self\<lparr>loaded_tables := insert name (loaded_tables self)\<rparr>)
           else (Inr False, self)))"

text \<open>
  \<open>_save_table_info_file\<close>: \<open>open(out_file, "w")\<close> creates the file or replaces its
  content. The entry is named \<open>table_name + ".json"\<close> in the directory.
\<close>

definition save_table_info_file ::
  "TableDescriber \<Rightarrow> TableInfo option \<Rightarrow> bool \<Rightarrow> (error + unit) \<times> TableDescriber" where
  "save_table_info_file self table_info save_file =
     (if \<not> save_file then (Inr (), self)
      else case table_info of
             None \<Rightarrow> (Inl AttributeError, self)
           | Some ti \<Rightarrow>
               (let out_file = TableInfo.table_name ti @ ''.json''
                in (Inr (), self\<lparr>files := AList.update out_file (Json_of ti) (files self),
                                  trace := trace self @ [Wrote_file out_file]\<rparr>)))"

definition process_parsing ::
  "TableDescriber \<Rightarrow> string \<Rightarrow> (error + TableInfo option) \<times> TableDescriber" where
  "process_parsing self name =
     (case get_table_rows (conn self) name (trace self) of
        (Inl e, tr) \<Rightarrow> (Inl e, self\<lparr>trace := tr\<rparr>)
      | (Inr rows, tr) \<Rightarrow>
          (case parse_table_info (self\<lparr>trace := tr\<rparr>) rows name of
             (table_info, self1) \<Rightarrow>
               (case add_table_name self1 table_info of
                  (Inl e, self2) \<Rightarrow> (Inl e, self2)
                | (Inr save_file, self2) \<Rightarrow>
                    (case save_table_info_file self2 table_info save_file of
                       (Inl e, self3) \<Rightarrow> (Inl e, self3)
                     | (Inr u, self3) \<Rightarrow> (Inr table_info, self3)))))"

text \<open>
  The body of the loop of \<open>get_descriptions\<close> for one table name. Building the
  \<open>SQLTableSchema\<close> reads \<open>table_info.table_name\<close>, which raises AttributeError on
  \<open>None\<close>.
\<close>

definition get_descriptions_body ::
  "TableDescriber \<Rightarrow> string \<Rightarrow> (error + unit) \<times> TableDescriber" where
  "get_descriptions_body self name =
     (case get_table_info_with_index self name of
        (Inl e, self1) \<Rightarrow> (Inl e, self1)
      | (Inr cached, self1) \<Rightarrow>
          (case (case cached of
                   None \<Rightarrow> process_parsing self1 name
                 | Some ti \<Rightarrow> (Inr (Some ti), self1)) of
             (Inl e, self2) \<Rightarrow> (Inl e, self2)
           | (Inr table_info, self2) \<Rightarrow>
               (case table_info of
                  None \<Rightarrow> (Inl AttributeError, self2)
                | Some ti \<Rightarrow>
                    (Inr (),
                     self2\<lparr>table_infos := table_infos self2
                        @ [\<lparr>SQLTableSchema.table_name = TableInfo.table_name ti,
                             context_str = Some (table_summary ti)\<rparr>]\<rparr>))))"

fun get_descriptions_loop ::
  "TableDescriber \<Rightarrow> string list \<Rightarrow> (error + unit) \<times> TableDescriber" where
  "get_descriptions_loop self [] = (Inr (), self)"
| "get_descriptions_loop self (name # rest) =
     (case get_descriptions_body self name of
        (Inl e, self1) \<Rightarrow> (Inl e, self1)
      | (Inr u, self1) \<Rightarrow> get_descriptions_loop self1 rest)"

definition get_descriptions ::
  "TableDescriber \<Rightarrow> (error + SQLTableSchema list) \<times> TableDescriber" where
  "get_descriptions self =
     (case get_all_tables (conn self) (trace self) of
        (Inl e, tr) \<Rightarrow> (Inl e, self\<lparr>trace := tr\<rparr>)
      | (Inr tables, tr) \<Rightarrow>
          (case get_descriptions_loop (self\<lparr>trace := tr\<rparr>) tables of
             (Inl e, self1) \<Rightarrow> (Inl e, self1)
           | (Inr u, self1) \<Rightarrow> (Inr (table_infos self1), self1)))"

section \<open>Predicates and inputs used in the statements\<close>

definition example_environ :: "string \<rightharpoonup> string" where
  "example_environ =
     map_of [(''POSTGRES_USER'', ''bob''), (''POSTGRES_PASSWORD'', ''pw''),
             (''POSTGRES_HOST'', ''db''), (''POSTGRES_PORT'', ''5432''),
             (''POSTGRES_DB'', ''shop'')]"

text \<open>A database with the tables \<open>orders\<close> and \<open>users\<close>, two rows in each.\<close>

definition example_connection :: connection where
  "example_connection =
     \<lparr>execute = (\<lambda>q. if q = get_all_tables_query then Inr [[''orders''], [''users'']]
                      else Inr [[''1'', ''x''], [''2'', ''y'']])\<rparr>"



definition example_db :: SQLDatabase where
  "example_db = \<lparr>get_single_table_info = (\<lambda>name. Inr (''Table '' @ name))\<rparr>"

definition example_schemas :: "SQLTableSchema list" where
  "example_schemas =
     [\<lparr>SQLTableSchema.table_name = ''users'', context_str = Some ''people''\<rparr>,
      \<lparr>SQLTableSchema.table_name = ''orders'', context_str = None\<rparr>,
      \<lparr>SQLTableSchema.table_name = ''items'', context_str = Some ''''\<rparr>]"




text \<open>
  Example inputs. The completion program of the examples proposes a name of its own,
  which \<open>_parse_table_info\<close> replaces. The table names of the examples are plain, so
  the library's answer to other patterns plays no part in them.
\<close>

definition no_special :: "directory \<Rightarrow> string \<Rightarrow> error + (string \<times> file_content) list" where
  "no_special dir filename = Inr []"

definition example_program :: "row list \<Rightarrow> string set \<Rightarrow> error + TableInfo" where
  "example_program rows names =
     Inr \<lparr>TableInfo.table_name = ''guess'', table_summary = ''A table''\<rparr>"

definition failing_program :: "row list \<Rightarrow> string set \<Rightarrow> error + TableInfo" where
  "failing_program rows names = Inl ProgramError"



text \<open>The same describer with an empty cache and a completion program that raises.\<close>

definition failing_describer :: TableDescriber where
  "failing_describer =
     \<lparr>conn = Some example_connection, program = failing_program, table_infos = [],
      loaded_tables = {}, files = [], trace = [], glob_special = no_special\<rparr>"

text \<open>A database with the tables \<open>orders\<close> and \<open>order\<close>, and a describer with an empty cache.\<close>

definition collision_connection :: connection where
  "collision_connection =
     \<lparr>execute = (\<lambda>q. if q = get_all_tables_query then Inr [[''orders''], [''order'']]
                      else Inr [[''1'', ''x'']])\<rparr>"

definition collision_describer :: TableDescriber where
  "collision_describer =
     \<lparr>conn = Some collision_connection, program = example_program, table_infos = [],
      loaded_tables = {}, files = [], trace = [], glob_special = no_special\<rparr>"







section \<open>Properties of app/db.py\<close>

lemma all_truthy_five:
  "all_truthy [a, b, c, d, e] \<longleftrightarrow> a \<noteq> [] \<and> b \<noteq> [] \<and> c \<noteq> [] \<and> d \<noteq> [] \<and> e \<noteq> []"
  by (simp add: all_truthy_def)

lemma getenv_empty_iff:
  "getenv environ k '''' = [] \<longleftrightarrow> environ k = None \<or> environ k = Some []"
  by (simp add: getenv_def split: option.split)

text \<open>
  Claim C9. \<open>create_db_url\<close> raises ValueError if and only if at least one of the five
  variables POSTGRES_USER, POSTGRES_PASSWORD, POSTGRES_HOST, POSTGRES_PORT, POSTGRES_DB is
  unset or set to the empty string; otherwise it returns \<open>postgresql+psycopg2://\<close>
  followed by user, \<open>:\<close>, password, \<open>@\<close>, host, \<open>:\<close>, port, \<open>/\<close> and database name.
\<close>

theorem create_db_url_value_error_iff:
  "(create_db_url environ = Inl ValueError \<longleftrightarrow>
      (\<exists>k \<in> set postgres_variables. environ k = None \<or> environ k = Some ''''))
   \<and> (\<forall>u p h po d.
        environ ''POSTGRES_USER'' = Some u \<and> u \<noteq> '''' \<and>
        environ ''POSTGRES_PASSWORD'' = Some p \<and> p \<noteq> '''' \<and>
        environ ''POSTGRES_HOST'' = Some h \<and> h \<noteq> '''' \<and>
        environ ''POSTGRES_PORT'' = Some po \<and> po \<noteq> '''' \<and>
        environ ''POSTGRES_DB'' = Some d \<and> d \<noteq> '''' \<longrightarrow>
        create_db_url environ =
          Inr (''postgresql+psycopg2://'' @ u @ '':'' @ p @ ''@'' @ h @ '':'' @ po @ ''/'' @ d))"
proof (intro conjI allI impI)
  show "create_db_url environ = Inl ValueError \<longleftrightarrow>
      (\<exists>k \<in> set postgres_variables. environ k = None \<or> environ k = Some '''')"
    by (simp add: create_db_url_def Let_def all_truthy_five getenv_empty_iff
        postgres_variables_def)
next
  fix u p h po d
  assume "environ ''POSTGRES_USER'' = Some u \<and> u \<noteq> '''' \<and>
        environ ''POSTGRES_PASSWORD'' = Some p \<and> p \<noteq> '''' \<and>
        environ ''POSTGRES_HOST'' = Some h \<and> h \<noteq> '''' \<and>
        environ ''POSTGRES_PORT'' = Some po \<and> po \<noteq> '''' \<and>
        environ ''POSTGRES_DB'' = Some d \<and> d \<noteq> ''''"
  then show "create_db_url environ =
          Inr (''postgresql+psycopg2://'' @ u @ '':'' @ p @ ''@'' @ h @ '':'' @ po @ ''/'' @ d)"
    by (simp add: create_db_url_def Let_def all_truthy_five getenv_def)
qed

theorem create_db_url_value_error_iff_witness:
  "create_db_url example_environ = Inr ''postgresql+psycopg2://bob:pw@db:5432/shop''
   \<and> create_db_url (example_environ(''POSTGRES_PORT'' \<mapsto> '''')) = Inl ValueError
   \<and> create_db_url (example_environ(''POSTGRES_HOST'' := None)) = Inl ValueError"
proof -
  have a: "create_db_url example_environ = Inr ''postgresql+psycopg2://bob:pw@db:5432/shop''"
    using create_db_url_value_error_iff [of example_environ, THEN conjunct2, rule_format,
        of "''bob''" "''pw''" "''db''" "''5432''" "''shop''"]
    by (simp add: example_environ_def)
  have b: "create_db_url (example_environ(''POSTGRES_PORT'' \<mapsto> '''')) = Inl ValueError"
    using create_db_url_value_error_iff
      [of "example_environ(''POSTGRES_PORT'' \<mapsto> '''')", THEN conjunct1]
    by (simp add: postgres_variables_def)
  have c: "create_db_url (example_environ(''POSTGRES_HOST'' := None)) = Inl ValueError"
    using create_db_url_value_error_iff
      [of "example_environ(''POSTGRES_HOST'' := None)", THEN conjunct1]
    by (simp add: postgres_variables_def)
  from a b c show ?thesis by simp
qed

text \<open>
  Claim C3, as stated: every statement of \<open>app/db.py\<close> has a fixed text and passes the
  caller's values as bound parameters; in particular the statement of \<open>get_table_rows\<close>
  does not vary with the table name. It fails: for the tables \<open>users\<close> and \<open>orders\<close>
  the statements sent differ in their text, and neither binds a parameter.
\<close>

theorem get_table_rows_text_varies_with_table:
  "snd (get_table_rows (Some example_connection) ''users'' []) =
     [Executed \<lparr>sql_text = ''SELECT * FROM users LIMIT 5;'', parameters = []\<rparr>]
   \<and> snd (get_table_rows (Some example_connection) ''orders'' []) =
     [Executed \<lparr>sql_text = ''SELECT * FROM orders LIMIT 5;'', parameters = []\<rparr>]"
  by (simp add: get_table_rows_def get_table_rows_query_def text_clause_def
      example_connection_def Let_def)

text \<open>
  Claim C3, amended. \<open>get_table_rows\<close> sends one statement whose text is
  \<open>SELECT * FROM\<close>, the table name as given, and \<open>LIMIT 5;\<close>, the name interpolated
  into the text, with no bound parameter; \<open>get_all_tables\<close> sends one statement with a
  fixed text and no bound parameter (it takes no value from its caller).
\<close>

theorem db_statements_interpolated_unbound:
  "snd (get_table_rows (Some c) table tr) =
     tr @ [Executed \<lparr>sql_text = ''SELECT * FROM '' @ table @ '' LIMIT 5;'', parameters = []\<rparr>]
   \<and> snd (get_all_tables (Some c) tr) =
     tr @ [Executed \<lparr>sql_text = sql_text get_all_tables_query, parameters = []\<rparr>]"
  by (simp add: get_table_rows_def get_table_rows_query_def get_all_tables_def
      get_all_tables_query_def text_clause_def Let_def split: sum.split)



section \<open>Properties of app/text_to_sql.py\<close>

lemma get_contexts_loop_map:
  assumes "\<forall>t \<in> set ts. get_single_table_info db (SQLTableSchema.table_name t)
             = Inr (info (SQLTableSchema.table_name t))"
  shows "get_contexts_loop db ts acc =
           Inr (acc @ map (\<lambda>t. create_full_context (info (SQLTableSchema.table_name t))
                                  (context_str t)) ts)"
  using assms by (induction ts arbitrary: acc) (simp_all add: get_info_def)

text \<open>
  Claim C7. For every list of table schemas whose table information the database
  gives, \<open>get_contexts\<close> returns the descriptions of the tables joined by a blank line,
  in the order of the list; a description is the table information followed by
  \<open>The table description is:\<close> and the context string when that string is not empty, and
  the table information alone when it is empty or None. The empty list gives the empty
  string.
\<close>

theorem get_contexts_joins_descriptions:
  "((\<forall>t \<in> set tables_schemas.
       get_single_table_info db (SQLTableSchema.table_name t)
         = Inr (info (SQLTableSchema.table_name t))) \<longrightarrow>
     get_contexts db tables_schemas =
       Inr (join ''\<newline>\<newline>''
             (map (\<lambda>t. case context_str t of
                          None \<Rightarrow> info (SQLTableSchema.table_name t)
                        | Some c \<Rightarrow>
                            if c = '''' then info (SQLTableSchema.table_name t)
                            else info (SQLTableSchema.table_name t)
                                 @ '' The table description is: '' @ c)
                  tables_schemas)))
   \<and> get_contexts db [] = Inr ''''"
proof (intro conjI impI)
  assume a: "\<forall>t \<in> set tables_schemas.
       get_single_table_info db (SQLTableSchema.table_name t)
         = Inr (info (SQLTableSchema.table_name t))"
  have eq: "(\<lambda>t. create_full_context (info (SQLTableSchema.table_name t)) (context_str t))
      = (\<lambda>t. case context_str t of
                          None \<Rightarrow> info (SQLTableSchema.table_name t)
                        | Some c \<Rightarrow>
                            if c = '''' then info (SQLTableSchema.table_name t)
                            else info (SQLTableSchema.table_name t)
                                 @ '' The table description is: '' @ c)"
    by (rule ext) (simp add: create_full_context_def split: option.split)
  show "get_contexts db tables_schemas =
       Inr (join ''\<newline>\<newline>''
             (map (\<lambda>t. case context_str t of
                          None \<Rightarrow> info (SQLTableSchema.table_name t)
                        | Some c \<Rightarrow>
                            if c = '''' then info (SQLTableSchema.table_name t)
                            else info (SQLTableSchema.table_name t)
                                 @ '' The table description is: '' @ c)
                  tables_schemas))"
    by (simp add: get_contexts_def get_contexts_loop_map [OF a, of "[]"] eq)
next
  show "get_contexts db [] = Inr ''''"
    by (simp add: get_contexts_def)
qed

theorem get_contexts_joins_descriptions_witness:
  "get_contexts example_db example_schemas =
     Inr (''Table users The table description is: people'' @ ''\<newline>\<newline>''
          @ ''Table orders'' @ ''\<newline>\<newline>'' @ ''Table items'')"
proof -
  have given: "\<forall>t \<in> set example_schemas.
       get_single_table_info example_db (SQLTableSchema.table_name t)
         = Inr (''Table '' @ SQLTableSchema.table_name t)"
    by (simp add: example_db_def)
  from get_contexts_joins_descriptions
         [of example_schemas example_db "\<lambda>name. ''Table '' @ name", THEN conjunct1] given
  have "get_contexts example_db example_schemas =
       Inr (join ''\<newline>\<newline>''
             (map (\<lambda>t. case context_str t of
                          None \<Rightarrow> ''Table '' @ SQLTableSchema.table_name t
                        | Some c \<Rightarrow>
                            if c = '''' then ''Table '' @ SQLTableSchema.table_name t
                            else (''Table '' @ SQLTableSchema.table_name t)
                                 @ '' The table description is: '' @ c)
                  example_schemas))"
    by blast
  then show ?thesis by (simp add: example_schemas_def)
qed

text \<open>
  Claim C2 says that for a content with \<open>SQLQuery:\<close> and, after it, \<open>SQLResult:\<close>,
  \<open>parse_response_to_sql\<close> returns the text between the two markers, cleaned, and
  nothing of the second marker. The index of \<open>SQLResult:\<close> is taken in the whole content
  and used on the content already cut after \<open>SQLQuery:\<close>, so the cut falls too late: for
  the content below the text between the markers is \<open>SELECT 1\<close>, and the function
  returns it followed by \<open>SQLResult\<close>.
\<close>

theorem parse_response_to_sql_keeps_result_marker:
  "parse_response_to_sql \<lparr>message_content = Some ''SQLQuery: SELECT 1\<newline>SQLResult: 1''\<rparr>
   = Inr ''SELECT 1 SQLResult''"
proof -
  let ?content = "''SQLQuery: SELECT 1\<newline>SQLResult: 1''"
  have query_at: "str_find ?content ''SQLQuery:'' = 0"
    by (simp add: str_find_def)
  have result_at: "str_find ?content ''SQLResult:'' = 19"
    by (simp add: str_find_def)
  have after_query: "slice_from ?content 9 = '' SELECT 1\<newline>SQLResult: 1''"
    by (simp add: slice_from_def)
  have before_result:
    "slice_to '' SELECT 1\<newline>SQLResult: 1'' 19 = '' SELECT 1\<newline>SQLResult''"
    by (simp add: slice_to_def)
  have stripped: "strip '' SELECT 1\<newline>SQLResult'' = ''SELECT 1\<newline>SQLResult''"
    by (simp add: strip_def strip_where_def isspace_def)
  have unfenced:
    "strip_chars ''```'' ''SELECT 1\<newline>SQLResult'' = ''SELECT 1\<newline>SQLResult''"
    by (simp add: strip_chars_def strip_where_def)
  have stripped_again: "strip ''SELECT 1\<newline>SQLResult'' = ''SELECT 1\<newline>SQLResult''"
    by (simp add: strip_def strip_where_def isspace_def)
  have replaced:
    "replace_char (CHR 0x0A) (CHR '' '') ''SELECT 1\<newline>SQLResult'' = ''SELECT 1 SQLResult''"
    by (simp add: replace_char_def)
  show ?thesis
    by (simp add: parse_response_to_sql_def Let_def query_at result_at
        after_query before_result stripped unfenced stripped_again replaced)
qed

section \<open>Properties of app/table.py\<close>

subsection \<open>The cache lookup\<close>




lemma lookup_none:
  "plain_name t \<Longrightarrow> glob_prefix (files self) t = [] \<Longrightarrow>
   get_table_info_with_index self t = (Inr None, self\<lparr>trace := trace self @ [Globbed t []]\<rparr>)"
  by (simp add: get_table_info_with_index_def path_glob_def)

lemma lookup_one:
  "plain_name t \<Longrightarrow> glob_prefix (files self) t = [(path, content)] \<Longrightarrow>
   get_table_info_with_index self t =
     (case parse_file content of Inl e \<Rightarrow> Inl e | Inr ti \<Rightarrow> Inr (Some ti),
      self\<lparr>trace := trace self @ [Globbed t [path], Read_file path]\<rparr>)"
  by (simp add: get_table_info_with_index_def path_glob_def split: sum.split)









subsection \<open>Describing one table\<close>

lemma rows_query_differs: "get_table_rows_query t \<noteq> get_all_tables_query"
  by (simp add: get_table_rows_query_def get_all_tables_query_def text_clause_def)

lemma process_parsing_success:
  assumes "conn self = Some c"
    and "execute c (get_table_rows_query t) = Inr rows"
    and "program self rows (loaded_tables self) = Inr ti"
    and "t \<notin> loaded_tables self"
  shows "process_parsing self t =
    (Inr (Some (ti\<lparr>TableInfo.table_name := t\<rparr>)),
     self\<lparr>loaded_tables := insert t (loaded_tables self),
          files := AList.update (t @ ''.json'') (Json_of (ti\<lparr>TableInfo.table_name := t\<rparr>))
                     (files self),
          trace := trace self @ [Executed (get_table_rows_query t),
                                 Called_program rows (loaded_tables self),
                                 Wrote_file (t @ ''.json'')]\<rparr>)"
  using assms
  by (simp add: process_parsing_def get_table_rows_def parse_table_info_def
      add_table_name_def save_table_info_file_def Let_def)

lemma process_parsing_program_raises:
  assumes "conn self = Some c"
    and "execute c (get_table_rows_query t) = Inr rows"
    and "program self rows (loaded_tables self) = Inl e"
  shows "process_parsing self t =
    (Inl AttributeError,
     self\<lparr>trace := trace self @ [Executed (get_table_rows_query t),
                                 Called_program rows (loaded_tables self)]\<rparr>)"
  using assms
  by (simp add: process_parsing_def get_table_rows_def parse_table_info_def
      add_table_name_def Let_def)

lemma body_program_raises:
  assumes "conn self = Some c"
    and "execute c (get_table_rows_query t) = Inr rows"
    and "program self rows (loaded_tables self) = Inl e"
    and "glob_prefix (files self) t = []"
    and "plain_name t"
  shows "get_descriptions_body self t =
    (Inl AttributeError,
     self\<lparr>trace := trace self @ [Globbed t [], Executed (get_table_rows_query t),
                                 Called_program rows (loaded_tables self)]\<rparr>)"
proof -
  let ?s1 = "self\<lparr>trace := trace self @ [Globbed t []]\<rparr>"
  have "process_parsing ?s1 t =
    (Inl AttributeError,
     ?s1\<lparr>trace := trace ?s1 @ [Executed (get_table_rows_query t),
                                 Called_program rows (loaded_tables ?s1)]\<rparr>)"
    by (rule process_parsing_program_raises [where c = c and e = e]) (simp_all add: assms)
  then show ?thesis
    by (simp add: get_descriptions_body_def lookup_none [OF assms(5) assms(4)])
qed

lemma body_generates:
  assumes "conn self = Some c"
    and "execute c (get_table_rows_query t) = Inr rows"
    and "program self rows (loaded_tables self) = Inr ti"
    and "t \<notin> loaded_tables self"
    and "glob_prefix (files self) t = []"
    and "plain_name t"
  shows "get_descriptions_body self t =
    (Inr (),
     self\<lparr>table_infos := table_infos self
             @ [\<lparr>SQLTableSchema.table_name = t, context_str = Some (table_summary ti)\<rparr>],
          loaded_tables := insert t (loaded_tables self),
          files := AList.update (t @ ''.json'') (Json_of (ti\<lparr>TableInfo.table_name := t\<rparr>))
                     (files self),
          trace := trace self @ [Globbed t [], Executed (get_table_rows_query t),
                                 Called_program rows (loaded_tables self),
                                 Wrote_file (t @ ''.json'')]\<rparr>)"
proof -
  let ?s1 = "self\<lparr>trace := trace self @ [Globbed t []]\<rparr>"
  have "process_parsing ?s1 t =
    (Inr (Some (ti\<lparr>TableInfo.table_name := t\<rparr>)),
     ?s1\<lparr>loaded_tables := insert t (loaded_tables ?s1),
          files := AList.update (t @ ''.json'') (Json_of (ti\<lparr>TableInfo.table_name := t\<rparr>))
                     (files ?s1),
          trace := trace ?s1 @ [Executed (get_table_rows_query t),
                                 Called_program rows (loaded_tables ?s1),
                                 Wrote_file (t @ ''.json'')]\<rparr>)"
    by (rule process_parsing_success [where c = c]) (simp_all add: assms)
  then show ?thesis
    by (simp add: get_descriptions_body_def lookup_none [OF assms(6) assms(5)])
qed

lemma body_cached:
  assumes "glob_prefix (files self) t = [(path, Json_of ti)]" and "plain_name t"
  shows "get_descriptions_body self t =
    (Inr (),
     self\<lparr>table_infos := table_infos self
             @ [\<lparr>SQLTableSchema.table_name = TableInfo.table_name ti,
                  context_str = Some (table_summary ti)\<rparr>],
          trace := trace self @ [Globbed t [path], Read_file path]\<rparr>)"
  by (simp add: get_descriptions_body_def lookup_one [OF assms(2) assms(1)] parse_file_def)

text \<open>
  Claim C6 says that a failure of the completion program is absorbed: \<open>_parse_table_info\<close>
  returns \<open>None\<close> and \<open>_process_parsing\<close>, hence \<open>get_descriptions\<close>, complete without
  an exception. The first part holds; but \<open>_process_parsing\<close> passes the \<open>None\<close> to
  \<open>_add_table_name\<close>, which reads its \<open>table_name\<close>: with a completion program that
  raises and an empty cache, \<open>_process_parsing\<close> and \<open>get_descriptions\<close> raise
  AttributeError.
\<close>

theorem program_failure_raises_attribute_error:
  "fst (parse_table_info failing_describer [[''1'', ''x''], [''2'', ''y'']] ''orders'') = None
   \<and> fst (process_parsing failing_describer ''orders'') = Inl AttributeError
   \<and> fst (get_descriptions failing_describer) = Inl AttributeError"
proof -
  have conn: "conn failing_describer = Some example_connection"
    by (simp add: failing_describer_def)
  have listing: "get_all_tables (Some example_connection) [] =
      (Inr [''orders'', ''users''], [Executed get_all_tables_query])"
    by (simp add: get_all_tables_def example_connection_def)
  have rows: "execute example_connection (get_table_rows_query ''orders'')
      = Inr [[''1'', ''x''], [''2'', ''y'']]"
    by (simp add: example_connection_def rows_query_differs)
  have a: "fst (parse_table_info failing_describer [[''1'', ''x''], [''2'', ''y'']] ''orders'') = None"
    by (simp add: parse_table_info_def failing_describer_def failing_program_def Let_def)
  have b: "fst (process_parsing failing_describer ''orders'') = Inl AttributeError"
    by (subst process_parsing_program_raises [OF conn rows])
       (simp_all add: failing_describer_def failing_program_def)
  let ?s = "failing_describer\<lparr>trace := [Executed get_all_tables_query]\<rparr>"
  have "get_descriptions_body ?s ''orders'' =
      (Inl AttributeError,
       ?s\<lparr>trace := trace ?s @ [Globbed ''orders'' [],
              Executed (get_table_rows_query ''orders''),
              Called_program [[''1'', ''x''], [''2'', ''y'']] (loaded_tables ?s)]\<rparr>)"
    by (rule body_program_raises [where c = example_connection and e = ProgramError])
       (simp_all add: failing_describer_def failing_program_def rows glob_prefix_def
         plain_name_def)
  then have loop: "fst (get_descriptions_loop ?s [''orders'', ''users'']) = Inl AttributeError"
    by simp
  have c: "fst (get_descriptions failing_describer) = Inl AttributeError"
    using loop
    by (simp add: get_descriptions_def conn listing failing_describer_def
        split: prod.splits sum.splits)
  from a b c show ?thesis by simp
qed

subsection \<open>The files of the cache\<close>



lemma update_absent: "k \<notin> fst ` set al \<Longrightarrow> AList.update k v al = al @ [(k, v)]"
  by (induction al) auto












subsection \<open>Cache-or-generate\<close>

text \<open>
  Claim C1 says that for every table name \<open>get_all_tables\<close> returns,
  \<open>get_descriptions\<close> appends an \<open>SQLTableSchema\<close> for that table, from the cache or
  from the completion program, whose result it writes to a file named after the table.
  The file of a table \<open>t\<close> is written as \<open>t.json\<close> but looked up as \<open>t*\<close>: with the
  tables \<open>orders\<close> and \<open>order\<close> and an empty cache, the lookup for \<open>order\<close> finds
  the file just written for \<open>orders\<close>. The completion program is not called for
  \<open>order\<close>, no file is written for it, and the result holds two schemas for
  \<open>orders\<close> and none for \<open>order\<close>.
\<close>

theorem get_descriptions_describes_other_table:
  "fst (get_all_tables (conn collision_describer) (trace collision_describer))
      = Inr [''orders'', ''order'']
   \<and> fst (get_descriptions collision_describer) =
       Inr [\<lparr>SQLTableSchema.table_name = ''orders'', context_str = Some ''A table''\<rparr>,
            \<lparr>SQLTableSchema.table_name = ''orders'', context_str = Some ''A table''\<rparr>]
   \<and> map fst (files (snd (get_descriptions collision_describer))) = [''orders.json'']"
proof -
  have conn: "conn collision_describer = Some collision_connection"
    by (simp add: collision_describer_def)
  have listing: "get_all_tables (conn collision_describer) (trace collision_describer) =
      (Inr [''orders'', ''order''], [Executed get_all_tables_query])"
    by (simp add: get_all_tables_def collision_describer_def collision_connection_def)
  have rows: "execute collision_connection (get_table_rows_query ''orders'') = Inr [[''1'', ''x'']]"
    by (simp add: collision_connection_def rows_query_differs)
  let ?info = "\<lparr>TableInfo.table_name = ''orders'', table_summary = ''A table''\<rparr>"
  let ?schema = "\<lparr>SQLTableSchema.table_name = ''orders'', context_str = Some ''A table''\<rparr>"
  let ?s0 = "collision_describer\<lparr>trace := [Executed get_all_tables_query]\<rparr>"
  let ?s1 = "?s0\<lparr>table_infos := [?schema], loaded_tables := {''orders''},
      files := [(''orders.json'', Json_of ?info)],
      trace := [Executed get_all_tables_query, Globbed ''orders'' [],
                Executed (get_table_rows_query ''orders''),
                Called_program [[''1'', ''x'']] {}, Wrote_file ''orders.json'']\<rparr>"
  let ?s2 = "?s1\<lparr>table_infos := [?schema, ?schema],
      trace := trace ?s1 @ [Globbed ''order'' [''orders.json''], Read_file ''orders.json'']\<rparr>"
  have "get_descriptions_body ?s0 ''orders'' =
      (Inr (),
       ?s0\<lparr>table_infos := table_infos ?s0
              @ [\<lparr>SQLTableSchema.table_name = ''orders'',
                   context_str = Some (table_summary
                     \<lparr>TableInfo.table_name = ''guess'', table_summary = ''A table''\<rparr>)\<rparr>],
           loaded_tables := insert ''orders'' (loaded_tables ?s0),
           files := AList.update (''orders'' @ ''.json'')
                      (Json_of (\<lparr>TableInfo.table_name = ''guess'', table_summary = ''A table''\<rparr>
                                  \<lparr>TableInfo.table_name := ''orders''\<rparr>))
                      (files ?s0),
           trace := trace ?s0 @ [Globbed ''orders'' [], Executed (get_table_rows_query ''orders''),
                                 Called_program [[''1'', ''x'']] (loaded_tables ?s0),
                                 Wrote_file (''orders'' @ ''.json'')]\<rparr>)"
    by (rule body_generates [where c = collision_connection])
       (simp_all add: collision_describer_def rows example_program_def glob_prefix_def
         plain_name_def)
  then have step1: "get_descriptions_body ?s0 ''orders'' = (Inr (), ?s1)"
    by (simp add: collision_describer_def)
  have hit: "glob_prefix (files ?s1) ''order'' = [(''orders.json'', Json_of ?info)]"
    by (simp add: glob_prefix_def)
  have step2: "get_descriptions_body ?s1 ''order'' = (Inr (), ?s2)"
    using body_cached [OF hit] by (simp add: plain_name_def)
  have "get_descriptions_loop ?s0 [''orders'', ''order''] = (Inr (), ?s2)"
    using step1 step2 by simp
  then have "get_descriptions collision_describer = (Inr (table_infos ?s2), ?s2)"
    by (simp add: get_descriptions_def listing)
  then show ?thesis by (simp add: listing)
qed

end
